theory Spec2Isabelle
  imports Main
begin

section \<open>Python strings and the interpreter's character classes\<close>

text \<open>
  A Python \<open>str\<close> is a sequence of Unicode code points; a code point is a natural number
  here and a string a list of them. \<open>py\<close> turns an ASCII literal of the script into such
  a list.
\<close>

type_synonym pystr = "nat list"

definition py :: "string \<Rightarrow> pystr" where
  "py s = map of_char s"

definition NL :: nat where
  "NL = 10"

definition APOS :: nat where
  "APOS = 39"

text \<open>
  The patterns of the script are compiled without \<open>re.ASCII\<close>, so \<open>\s\<close>, \<open>\d\<close> and
  \<open>\w\<close> are the Unicode classes of the interpreter. On ASCII they are fixed
  (\<open>\s\<close>: 9..13, 28..32; \<open>\d\<close>: the digits; \<open>\w\<close>: letters, digits and the underscore).
  Beyond ASCII they come from the interpreter's Unicode database, which is no part of the
  repository: it is the parameter \<open>U\<close> of everything below.
\<close>

record unicode_db =
  uni_space :: "nat \<Rightarrow> bool"
  uni_digit :: "nat \<Rightarrow> bool"
  uni_word :: "nat \<Rightarrow> bool"

definition is_space :: "unicode_db \<Rightarrow> nat \<Rightarrow> bool" where
  "is_space U c = (if c < 128 then (9 \<le> c \<and> c \<le> 13) \<or> (28 \<le> c \<and> c \<le> 32) else uni_space U c)"

definition is_digit :: "unicode_db \<Rightarrow> nat \<Rightarrow> bool" where
  "is_digit U c = (if c < 128 then 48 \<le> c \<and> c \<le> 57 else uni_digit U c)"

definition is_word :: "unicode_db \<Rightarrow> nat \<Rightarrow> bool" where
  "is_word U c =
     (if c < 128 then (48 \<le> c \<and> c \<le> 57) \<or> (65 \<le> c \<and> c \<le> 90) \<or> c = 95 \<or> (97 \<le> c \<and> c \<le> 122)
      else uni_word U c)"

text \<open>A database that puts no code point beyond ASCII in any class, for concrete runs.\<close>

definition ascii_db :: unicode_db where
  "ascii_db = \<lparr>uni_space = (\<lambda>c. False), uni_digit = (\<lambda>c. False), uni_word = (\<lambda>c. False)\<rparr>"

subsection \<open>String methods\<close>

text \<open>\<open>s.startswith(p)\<close>.\<close>

fun startswith :: "pystr \<Rightarrow> pystr \<Rightarrow> bool" where
  "startswith [] s = True"
| "startswith (p # ps) [] = False"
| "startswith (p # ps) (c # cs) = (p = c \<and> startswith ps cs)"

text \<open>\<open>p in s\<close> on strings: \<open>p\<close> occurs in \<open>s\<close>.\<close>

fun contains :: "pystr \<Rightarrow> pystr \<Rightarrow> bool" where
  "contains p [] = startswith p []"
| "contains p (c # cs) = (startswith p (c # cs) \<or> contains p cs)"

text \<open>\<open>s.split('\n')\<close>: the pieces between the newlines; \<open>acc\<close> is the piece being read, reversed.\<close>

fun split_acc :: "pystr \<Rightarrow> pystr \<Rightarrow> pystr list" where
  "split_acc acc [] = [rev acc]"
| "split_acc acc (c # cs) = (if c = NL then rev acc # split_acc [] cs else split_acc (c # acc) cs)"

definition split_nl :: "pystr \<Rightarrow> pystr list" where
  "split_nl s = split_acc [] s"

text \<open>\<open>sep.join(xs)\<close>.\<close>

fun join :: "pystr \<Rightarrow> pystr list \<Rightarrow> pystr" where
  "join sep [] = []"
| "join sep [x] = x"
| "join sep (x # y # ys) = x @ sep @ join sep (y # ys)"

text \<open>\<open>xs[0]\<close> raises \<open>IndexError\<close> on an empty list.\<close>

datatype py_error = IndexError

definition index0 :: "'a list \<Rightarrow> py_error + 'a" where
  "index0 xs = (case xs of [] \<Rightarrow> Inl IndexError | x # _ \<Rightarrow> Inr x)"

section \<open>The regular expressions of the script\<close>

text \<open>
  Each matcher takes the text from the position where the match is tried and returns
  the text after the match (with the groups, where the pattern has any), or \<open>None\<close>.
\<close>

text \<open>A literal.\<close>

definition lit :: "pystr \<Rightarrow> pystr \<Rightarrow> pystr option" where
  "lit p s = (if startswith p s then Some (drop (length p) s) else None)"

text \<open>\<open>\d{n}\<close>.\<close>

definition digits :: "unicode_db \<Rightarrow> nat \<Rightarrow> pystr \<Rightarrow> pystr option" where
  "digits U n s = (if n \<le> length s \<and> list_all (is_digit U) (take n s) then Some (drop n s) else None)"

text \<open>\<open>\d{4}-\d{2}-\d{2}\<close>.\<close>

definition date_re :: "unicode_db \<Rightarrow> pystr \<Rightarrow> pystr option" where
  "date_re U s =
     Option.bind (digits U 4 s) (\<lambda>s1.
     Option.bind (lit (py ''-'') s1) (\<lambda>s2.
     Option.bind (digits U 2 s2) (\<lambda>s3.
     Option.bind (lit (py ''-'') s3) (\<lambda>s4.
     digits U 2 s4))))"

text \<open>\<open>re.match(r'\d{4}-\d{2}-\d{2}', date)\<close> as a truth value.\<close>

definition re_match_date :: "unicode_db \<Rightarrow> pystr \<Rightarrow> bool" where
  "re_match_date U date = (date_re U date \<noteq> None)"

text \<open>The group \<open>(\d{4}-\d{2}-\d{2})\<close>: the text it matched, and the text after it.\<close>

definition date_group :: "unicode_db \<Rightarrow> pystr \<Rightarrow> (pystr \<times> pystr) option" where
  "date_group U s =
     (case date_re U s of None \<Rightarrow> None
      | Some rest \<Rightarrow> Some (take (length s - length rest) s, rest))"

text \<open>
  \<open>\s*\<close> and \<open>\s+\<close> followed by the rest \<open>k\<close> of the pattern. The quantifier is greedy
  and backtracks: it takes one more white-space character when the pattern matches that
  way, and tries \<open>k\<close> where it stands otherwise.
\<close>

fun ws_star :: "unicode_db \<Rightarrow> (pystr \<Rightarrow> 'a option) \<Rightarrow> pystr \<Rightarrow> 'a option" where
  "ws_star U k [] = k []"
| "ws_star U k (c # cs) =
     (if is_space U c
      then (case ws_star U k cs of Some r \<Rightarrow> Some r | None \<Rightarrow> k (c # cs))
      else k (c # cs))"

fun ws_plus :: "unicode_db \<Rightarrow> (pystr \<Rightarrow> 'a option) \<Rightarrow> pystr \<Rightarrow> 'a option" where
  "ws_plus U k [] = None"
| "ws_plus U k (c # cs) = (if is_space U c then ws_star U k cs else None)"

text \<open>\<open>\s+-\s+(\d{4}-\d{2}-\d{2})\<close>, the body of the optional group of the version pattern.\<close>

definition date_suffix :: "unicode_db \<Rightarrow> pystr \<Rightarrow> (pystr \<times> pystr) option" where
  "date_suffix U s =
     ws_plus U (\<lambda>s1. Option.bind (lit (py ''-'') s1) (ws_plus U (date_group U))) s"

text \<open>
  \<open>## \[([^\]]+)\](?:\s+-\s+(\d{4}-\d{2}-\d{2}))?\<close> tried at one position: the label,
  the date (the empty string when the optional group took no part, as \<open>findall\<close> reports
  it) and the text after the match. \<open>[^\]]+\<close> runs over every character but \<open>]\<close>, newlines
  too, and must be followed by \<open>]\<close>, so it stops at the first \<open>]\<close>.
\<close>

definition match_version :: "unicode_db \<Rightarrow> pystr \<Rightarrow> (pystr \<times> pystr \<times> pystr) option" where
  "match_version U s =
     (case lit (py ''## ['') s of None \<Rightarrow> None
      | Some t \<Rightarrow>
          let label = takeWhile (\<lambda>c. c \<noteq> of_char CHR '']'') t;
              r = dropWhile (\<lambda>c. c \<noteq> of_char CHR '']'') t
          in if label = [] \<or> r = [] then None
             else (case date_suffix U (tl r) of
                     Some (date, rest) \<Rightarrow> Some (label, date, rest)
                   | None \<Rightarrow> Some (label, [], tl r)))"

text \<open>The text a match consumed ends with a newline: \<open>^\<close> holds right after it.\<close>

definition ends_line :: "pystr \<Rightarrow> pystr \<Rightarrow> bool" where
  "ends_line s rest = (last (take (length s - length rest) s) = NL)"

text \<open>
  \<open>version_pattern.findall(content)\<close> under \<open>re.MULTILINE\<close>: the pattern starts with
  \<open>^\<close>, so it is tried only at the start of the text and after a newline (\<open>bol\<close>); after a
  match the search goes on where the match ended.
\<close>

function findall_versions :: "unicode_db \<Rightarrow> bool \<Rightarrow> pystr \<Rightarrow> (pystr \<times> pystr) list" where
  "findall_versions U bol s =
     (case (if bol then match_version U s else None) of
        Some (label, date, rest) \<Rightarrow> (label, date) # findall_versions U (ends_line s rest) rest
      | None \<Rightarrow> (case s of [] \<Rightarrow> [] | c # cs \<Rightarrow> findall_versions U (c = NL) cs))"
  by pat_completeness auto

text \<open>Every match of the version pattern consumes text, so the search ends.\<close>

lemma lit_length: "lit p s = Some t \<Longrightarrow> length t \<le> length s"
  by (auto simp: lit_def split: if_splits)

lemma lit_length_lt: "lit p s = Some t \<Longrightarrow> p \<noteq> [] \<Longrightarrow> length t < length s"
  by (cases p; cases s) (auto simp: lit_def split: if_splits)

lemma digits_length: "digits U n s = Some t \<Longrightarrow> length t \<le> length s"
  by (auto simp: digits_def split: if_splits)

lemma date_re_length: "date_re U s = Some t \<Longrightarrow> length t \<le> length s"
  unfolding date_re_def
  by (auto simp: bind_eq_Some_conv dest!: lit_length digits_length)

lemma date_group_length: "date_group U s = Some (d, t) \<Longrightarrow> length t \<le> length s"
  by (auto simp: date_group_def split: option.splits dest: date_re_length)

lemma ws_star_length:
  assumes k: "\<And>s x t. k s = Some (x, t) \<Longrightarrow> length t \<le> length s"
  shows "ws_star U k s = Some (x, t) \<Longrightarrow> length t \<le> length s"
proof (induction s)
  case Nil
  then have "k [] = Some (x, t)" by simp
  then show ?case by (rule k)
next
  case (Cons c cs)
  show ?case
  proof (cases "ws_star U k cs")
    case None
    then have "k (c # cs) = Some (x, t)" using Cons.prems by (simp split: if_splits)
    then show ?thesis by (rule k)
  next
    case (Some r)
    show ?thesis
    proof (cases "is_space U c")
      case True
      then have "ws_star U k cs = Some (x, t)" using Cons.prems Some by simp
      then have "length t \<le> length cs" by (rule Cons.IH)
      then show ?thesis by simp
    next
      case False
      then have "k (c # cs) = Some (x, t)" using Cons.prems by simp
      then show ?thesis by (rule k)
    qed
  qed
qed

lemma ws_plus_length:
  assumes k: "\<And>s x t. k s = Some (x, t) \<Longrightarrow> length t \<le> length s"
    and m: "ws_plus U k s = Some (x, t)"
  shows "length t \<le> length s"
proof (cases s)
  case Nil
  then show ?thesis using m by simp
next
  case (Cons c cs)
  then have "ws_star U k cs = Some (x, t)" using m by (simp split: if_splits)
  then have "length t \<le> length cs"
    using ws_star_length[where k = k and U = U and s = cs and x = x and t = t] k by blast
  then show ?thesis using Cons by simp
qed

lemma date_suffix_length:
  assumes "date_suffix U s = Some (d, t)"
  shows "length t \<le> length s"
proof -
  have inner: "length t' \<le> length s1"
    if "Option.bind (lit (py ''-'') s1) (ws_plus U (date_group U)) = Some (x, t')" for s1 x t'
  proof -
    from that obtain s2 where a: "lit (py ''-'') s1 = Some s2"
      and b: "ws_plus U (date_group U) s2 = Some (x, t')"
      by (auto simp: bind_eq_Some_conv)
    have "length t' \<le> length s2"
      using date_group_length b by (rule ws_plus_length)
    with lit_length[OF a] show ?thesis by simp
  qed
  show ?thesis
    using inner assms[unfolded date_suffix_def] by (rule ws_plus_length)
qed

lemma match_version_length:
  assumes "match_version U s = Some (l, d, t)"
  shows "length t < length s"
proof -
  obtain u where u: "lit (py ''## ['') s = Some u"
    using assms by (auto simp: match_version_def split: option.splits)
  have us: "length u < length s"
    using lit_length_lt[OF u] by (simp add: py_def)
  let ?r = "dropWhile (\<lambda>c. c \<noteq> of_char CHR '']'') u"
  have r: "?r \<noteq> []" and t: "length t \<le> length (tl ?r)"
    using assms u
    by (auto simp: match_version_def Let_def split: option.splits if_splits dest: date_suffix_length)
  have "length ?r \<le> length u" by (rule length_dropWhile_le)
  with r t us show ?thesis by (cases ?r) auto
qed

termination findall_versions
  by (relation "measure (\<lambda>(U, bol, s). length s)") (auto split: if_splits dest: match_version_length)

declare findall_versions.simps [simp del]

text \<open>
  \<open>### (\w+)\<close> tried at one position: the name and the text after the match.
\<close>

definition match_category :: "unicode_db \<Rightarrow> pystr \<Rightarrow> (pystr \<times> pystr) option" where
  "match_category U s =
     (case lit (py ''### '') s of None \<Rightarrow> None
      | Some t \<Rightarrow>
          let name = takeWhile (is_word U) t
          in if name = [] then None else Some (name, dropWhile (is_word U) t))"

text \<open>\<open>category_pattern.findall(unreleased_content)\<close>, under \<open>re.MULTILINE\<close> as above.\<close>

function findall_categories :: "unicode_db \<Rightarrow> bool \<Rightarrow> pystr \<Rightarrow> pystr list" where
  "findall_categories U bol s =
     (case (if bol then match_category U s else None) of
        Some (name, rest) \<Rightarrow> name # findall_categories U (ends_line s rest) rest
      | None \<Rightarrow> (case s of [] \<Rightarrow> [] | c # cs \<Rightarrow> findall_categories U (c = NL) cs))"
  by pat_completeness auto

lemma match_category_length:
  assumes "match_category U s = Some (n, t)"
  shows "length t < length s"
proof -
  obtain u where u: "lit (py ''### '') s = Some u" and t: "t = dropWhile (is_word U) u"
    using assms by (auto simp: match_category_def Let_def split: option.splits if_splits)
  have "length u < length s"
    using lit_length_lt[OF u] by (simp add: py_def)
  moreover have "length t \<le> length u"
    unfolding t by (rule length_dropWhile_le)
  ultimately show ?thesis by simp
qed

termination findall_categories
  by (relation "measure (\<lambda>(U, bol, s). length s)") (auto split: if_splits dest: match_category_length)

declare findall_categories.simps [simp del]

text \<open>
  \<open>re.search(p, text, re.MULTILINE)\<close> as a truth value, for a pattern \<open>^p\<close>: \<open>p\<close> is tried
  at the start of the text and after every newline.
\<close>

fun search_multiline :: "(pystr \<Rightarrow> bool) \<Rightarrow> bool \<Rightarrow> pystr \<Rightarrow> bool" where
  "search_multiline p bol [] = (bol \<and> p [])"
| "search_multiline p bol (c # cs) = ((bol \<and> p (c # cs)) \<or> search_multiline p (c = NL) cs)"

text \<open>\<open>- \S\<close>.\<close>

definition bullet_re :: "unicode_db \<Rightarrow> pystr \<Rightarrow> bool" where
  "bullet_re U s = (case lit (py ''- '') s of Some (c # cs) \<Rightarrow> \<not> is_space U c | _ \<Rightarrow> False)"

text \<open>\<open>[\*\+] \<close> (with the blank).\<close>

definition star_plus_re :: "pystr \<Rightarrow> bool" where
  "star_plus_re s =
     (case s of c # d # ds \<Rightarrow> (c = of_char CHR ''*'' \<or> c = of_char CHR ''+'') \<and> d = of_char CHR '' ''
      | _ \<Rightarrow> False)"

text \<open>\<open>\[Unreleased\]: https?://\<close>; the greedy \<open>s?\<close> takes the \<open>s\<close> first and gives it back if need be.\<close>

definition link_re :: "pystr \<Rightarrow> bool" where
  "link_re s =
     (case lit (py ''[Unreleased]: http'') s of None \<Rightarrow> False
      | Some t \<Rightarrow>
          (case lit (py ''s'') t of
             Some t' \<Rightarrow> startswith (py ''://'') t' \<or> startswith (py ''://'') t
           | None \<Rightarrow> startswith (py ''://'') t))"

text \<open>
  \<open>$\<close> without \<open>re.MULTILINE\<close>: at the end of the text, and before a newline that is
  the last character of the text.
\<close>

definition at_dollar :: "pystr \<Rightarrow> bool" where
  "at_dollar s = (s = [] \<or> s = [NL])"

text \<open>
  \<open>(.*?)(?=## \[|$)\<close> under \<open>re.DOTALL\<close>: the lazy group takes one character at a time,
  newlines too, until the look-ahead holds; the result is the group.
\<close>

fun lazy_body :: "pystr \<Rightarrow> pystr" where
  "lazy_body [] = []"
| "lazy_body (c # cs) =
     (if startswith (py ''## ['') (c # cs) \<or> at_dollar (c # cs) then [] else c # lazy_body cs)"

text \<open>
  \<open>re.search(r'## \[Unreleased\](.*?)(?=## \[|$)', content, re.DOTALL)\<close>: group 1 of the
  first match, \<open>None\<close> when there is none. The pattern has no \<open>^\<close>: it is tried at every
  position. Once the literal has matched, the rest always does.
\<close>

fun search_unreleased :: "pystr \<Rightarrow> pystr option" where
  "search_unreleased [] = None"
| "search_unreleased (c # cs) =
     (case lit (py ''## [Unreleased]'') (c # cs) of
        Some t \<Rightarrow> Some (lazy_body t)
      | None \<Rightarrow> search_unreleased cs)"

section \<open>The validator\<close>

text \<open>
  The module's global that the validator reads. It is a Python list, so nothing in the
  language keeps a run from changing it: the validator takes the module's state and
  hands it back.
\<close>

record module_state =
  VALID_CATEGORIES :: "pystr list"

definition module_init :: module_state where
  "module_init = \<lparr>VALID_CATEGORIES =
     [py ''Added'', py ''Changed'', py ''Deprecated'', py ''Removed'', py ''Fixed'', py ''Security'']\<rparr>"

text \<open>What a run leaves: the two lists the function fills, and the value it returns.\<close>

record report =
  final_errors :: "pystr list"
  final_warnings :: "pystr list"
  returned :: bool

subsection \<open>The messages\<close>

definition err_first_line :: pystr where
  "err_first_line = py ''First line must be '' @ [APOS] @ py ''# Changelog'' @ [APOS]"

definition warn_keepachangelog :: pystr where
  "warn_keepachangelog = py ''Missing Keep a Changelog reference''"

definition warn_semver :: pystr where
  "warn_semver = py ''Missing Semantic Versioning reference''"

definition err_no_versions :: pystr where
  "err_no_versions = py ''No version sections found (expected at least ## [Unreleased])''"

definition err_missing_unreleased :: pystr where
  "err_missing_unreleased = py ''Missing ## [Unreleased] section''"

definition warn_missing_date :: "pystr \<Rightarrow> pystr" where
  "warn_missing_date version = py ''Version ['' @ version @ py ''] is missing a date''"

definition err_date_format :: "pystr \<Rightarrow> pystr \<Rightarrow> pystr" where
  "err_date_format version date =
     py ''Version ['' @ version @ py ''] has invalid date format: '' @ date @ py '' (expected YYYY-MM-DD)''"

definition warn_no_categories :: pystr where
  "warn_no_categories = py ''[Unreleased] section has no categories (Added/Changed/Fixed/etc.)''"

definition warn_invalid_categories :: "pystr list \<Rightarrow> pystr" where
  "warn_invalid_categories cs = py ''Invalid categories in [Unreleased]: '' @ join (py '', '') cs"

definition warn_valid_categories :: "pystr list \<Rightarrow> pystr" where
  "warn_valid_categories cs = py ''Valid categories: '' @ join (py '', '') cs"

definition warn_empty :: pystr where
  "warn_empty = py ''[Unreleased] section appears to be empty (no bullet points)''"

definition warn_list_marker :: pystr where
  "warn_list_marker =
     py ''Use '' @ [APOS] @ py ''- '' @ [APOS] @ py '' for lists, not '' @ [APOS] @ py ''* '' @ [APOS]
       @ py '' or '' @ [APOS] @ py ''+ '' @ [APOS]"

definition warn_link :: pystr where
  "warn_link = py ''Missing comparison link for [Unreleased]''"

subsection \<open>The steps of \<open>validate_changelog\<close>\<close>

text \<open>The loop over \<open>versions\<close> (lines 67 to 73), on the two lists.\<close>

fun version_loop ::
  "unicode_db \<Rightarrow> (pystr \<times> pystr) list \<Rightarrow> pystr list \<times> pystr list \<Rightarrow> pystr list \<times> pystr list" where
  "version_loop U [] (errors, warnings_list) = (errors, warnings_list)"
| "version_loop U ((version, date) # vs) (errors, warnings_list) =
     (let warnings_list = (if version \<noteq> py ''Unreleased'' \<and> date = []
                      then warnings_list @ [warn_missing_date version] else warnings_list);
          errors = (if date \<noteq> [] \<and> \<not> re_match_date U date
                    then errors @ [err_date_format version date] else errors)
      in version_loop U vs (errors, warnings_list))"

text \<open>Step 4 after \<open>findall\<close> (lines 59 to 73).\<close>

fun check_versions ::
  "unicode_db \<Rightarrow> (pystr \<times> pystr) list \<Rightarrow> pystr list \<times> pystr list \<Rightarrow> pystr list \<times> pystr list" where
  "check_versions U versions (errors, warnings_list) =
     (if versions = [] then (errors @ [err_no_versions], warnings_list)
      else
        let errors = (if \<not> list_ex (\<lambda>v. fst v = py ''Unreleased'') versions
                      then errors @ [err_missing_unreleased] else errors)
        in version_loop U versions (errors, warnings_list))"

text \<open>
  Step 5, the checks on group 1 of the match (lines 78 to 96), on the list of warnings.
  This is the one place where the function touches an object of the module: it looks
  names up in \<open>VALID_CATEGORIES\<close> and joins the list for a message. The step takes the
  module's state and returns it with the warnings.
\<close>

definition unreleased_rules ::
  "unicode_db \<Rightarrow> module_state \<Rightarrow> pystr \<Rightarrow> pystr list \<Rightarrow> module_state \<times> pystr list" where
  "unreleased_rules U g unreleased_content warnings_list =
     (let categories = findall_categories U True unreleased_content
      in if categories = [] then (g, warnings_list @ [warn_no_categories])
         else
           let invalid_categories = filter (\<lambda>c. c \<notin> set (VALID_CATEGORIES g)) categories;
               warnings_list = (if invalid_categories \<noteq> []
                                then warnings_list @ [warn_invalid_categories invalid_categories,
                                                      warn_valid_categories (VALID_CATEGORIES g)]
                                else warnings_list);
               has_entries = search_multiline (bullet_re U) True unreleased_content
           in (g, if \<not> has_entries then warnings_list @ [warn_empty] else warnings_list))"

text \<open>Step 5 (lines 76 to 96): nothing is checked when the search finds no match.\<close>

definition check_unreleased ::
  "unicode_db \<Rightarrow> module_state \<Rightarrow> pystr \<Rightarrow> pystr list \<Rightarrow> module_state \<times> pystr list" where
  "check_unreleased U g content warnings_list =
     (case search_unreleased content of
        None \<Rightarrow> (g, warnings_list)
      | Some unreleased_content \<Rightarrow> unreleased_rules U g unreleased_content warnings_list)"

text \<open>
  The body of \<open>validate_changelog\<close> from line 38 on, for the text of the file: the
  module's state after the run, and the exception or the report. The two lists are
  locals, bound to new empty lists by every call (lines 31 and 32). The printing is left
  out: it reads the two lists and changes nothing.
\<close>

definition validate_content ::
  "unicode_db \<Rightarrow> module_state \<Rightarrow> pystr \<Rightarrow> module_state \<times> (py_error + report)" where
  "validate_content U g content =
     (case index0 (split_nl content) of Inl e \<Rightarrow> (g, Inl e)
      | Inr line0 \<Rightarrow>
          let errors = (if \<not> startswith (py ''# Changelog'') line0 then [err_first_line] else []);
              warnings_list = (if \<not> contains (py ''keepachangelog.com'') content
                          then [warn_keepachangelog] else []);
              warnings_list = (if \<not> contains (py ''semver.org'') content
                          then warnings_list @ [warn_semver] else warnings_list);
              versions = findall_versions U True content;
              (errors, warnings_list) = check_versions U versions (errors, warnings_list);
              (g, warnings_list) = check_unreleased U g content warnings_list;
              warnings_list = (if search_multiline star_plus_re True content
                          then warnings_list @ [warn_list_marker] else warnings_list);
              warnings_list = (if versions \<noteq> [] \<and> length versions > 1
                          then (if \<not> search_multiline link_re True content
                                then warnings_list @ [warn_link] else warnings_list)
                          else warnings_list)
          in (g, Inr \<lparr>final_errors = errors, final_warnings = warnings_list,
                      returned = (if errors \<noteq> [] then False else True)\<rparr>))"

text \<open>
  \<open>validate_changelog(changelog_path)\<close>: the file is \<open>None\<close> when the path does not
  exist; then the function prints one message and returns \<open>False\<close> with both lists empty.
\<close>

definition validate_changelog ::
  "unicode_db \<Rightarrow> module_state \<Rightarrow> pystr option \<Rightarrow> module_state \<times> (py_error + report)" where
  "validate_changelog U g file =
     (case file of
        None \<Rightarrow> (g, Inr \<lparr>final_errors = [], final_warnings = [], returned = False\<rparr>)
      | Some content \<Rightarrow> validate_content U g content)"

text \<open>
  \<open>sys.exit(0 if validate_changelog(changelog_path) else 1)\<close>; an exception that nothing
  catches ends the interpreter with status 1.
\<close>

definition exit_code :: "unicode_db \<Rightarrow> module_state \<Rightarrow> pystr option \<Rightarrow> nat" where
  "exit_code U g file =
     (case snd (validate_changelog U g file) of
        Inl e \<Rightarrow> 1
      | Inr r \<Rightarrow> (if returned r then 0 else 1))"

section \<open>Properties\<close>

subsection \<open>The steps, one by one\<close>

lemma index0_split_acc: "index0 (split_acc acc s) = Inr (rev acc @ takeWhile (\<lambda>c. c \<noteq> NL) s)"
  by (induction s arbitrary: acc) (auto simp: index0_def)

lemma index0_split_nl: "index0 (split_nl s) = Inr (takeWhile (\<lambda>c. c \<noteq> NL) s)"
  by (simp add: split_nl_def index0_split_acc)

lemma version_loop_eq:
  "version_loop U vs (e, w) =
     (e @ concat (map (\<lambda>(v, d). if d \<noteq> [] \<and> \<not> re_match_date U d then [err_date_format v d] else []) vs),
      w @ concat (map (\<lambda>(v, d). if v \<noteq> py ''Unreleased'' \<and> d = [] then [warn_missing_date v] else []) vs))"
  by (induction vs arbitrary: e w) (auto simp: Let_def)

lemma check_versions_eq:
  "check_versions U vs (e, w) =
     (e @ (if vs = [] then [err_no_versions]
           else (if \<not> list_ex (\<lambda>v. fst v = py ''Unreleased'') vs then [err_missing_unreleased] else [])
                @ concat (map (\<lambda>(v, d). if d \<noteq> [] \<and> \<not> re_match_date U d then [err_date_format v d] else []) vs)),
      w @ concat (map (\<lambda>(v, d). if v \<noteq> py ''Unreleased'' \<and> d = [] then [warn_missing_date v] else []) vs))"
  by (simp add: version_loop_eq Let_def)

declare check_versions.simps [simp del]

text \<open>The two lists after steps 1 to 3, and after step 4.\<close>

definition after_step3 :: "pystr \<Rightarrow> pystr list \<times> pystr list" where
  "after_step3 content =
     (if \<not> startswith (py ''# Changelog'') (takeWhile (\<lambda>c. c \<noteq> NL) content)
      then [err_first_line] else [],
      (if \<not> contains (py ''keepachangelog.com'') content then [warn_keepachangelog] else [])
      @ (if \<not> contains (py ''semver.org'') content then [warn_semver] else []))"

definition after_step4 :: "unicode_db \<Rightarrow> pystr \<Rightarrow> pystr list \<times> pystr list" where
  "after_step4 U content = check_versions U (findall_versions U True content) (after_step3 content)"

text \<open>Step 5 reads the module's state and leaves it as it is.\<close>

lemma unreleased_rules_state: "fst (unreleased_rules U g uc w) = g"
  by (simp add: unreleased_rules_def Let_def)

lemma check_unreleased_state: "fst (check_unreleased U g content w) = g"
  by (simp add: check_unreleased_def unreleased_rules_state split: option.splits)

lemma validate_content_eq:
  "validate_content U g content =
     (g, Inr \<lparr>final_errors = fst (after_step4 U content),
              final_warnings =
                snd (check_unreleased U g content (snd (after_step4 U content)))
                @ (if search_multiline star_plus_re True content then [warn_list_marker] else [])
                @ (if 1 < length (findall_versions U True content)
                      \<and> \<not> search_multiline link_re True content
                   then [warn_link] else []),
              returned = (fst (after_step4 U content) = [])\<rparr>)"
  using check_unreleased_state[of U g content "snd (after_step4 U content)"]
  by (auto simp: validate_content_def after_step4_def after_step3_def index0_split_nl Let_def
      case_prod_beta)

subsection \<open>What the version pattern captures as a date\<close>

lemma startswith_iff_append: "startswith p s \<longleftrightarrow> (\<exists>t. s = p @ t)"
  by (induction p s rule: startswith.induct) auto

lemma startswith_append [simp]: "startswith p (p @ t)"
  by (simp add: startswith_iff_append)

lemma lit_Some_iff: "lit p s = Some t \<longleftrightarrow> s = p @ t"
  by (auto simp: lit_def startswith_iff_append)

text \<open>
  A matcher is consuming when a match takes a prefix off the text and depends on that
  prefix only.
\<close>

definition consuming :: "(pystr \<Rightarrow> pystr option) \<Rightarrow> bool" where
  "consuming m = (\<forall>s t. m s = Some t \<longrightarrow> (\<exists>p. s = p @ t \<and> (\<forall>t'. m (p @ t') = Some t')))"

lemma consuming_lit: "consuming (lit p)"
  by (simp add: consuming_def lit_Some_iff)

lemma consuming_digits: "consuming (digits U n)"
  unfolding consuming_def
proof (intro allI impI)
  fix s t
  assume "digits U n s = Some t"
  then have n: "n \<le> length s" and d: "list_all (is_digit U) (take n s)" and t: "t = drop n s"
    by (auto simp: digits_def split: if_splits)
  have "s = take n s @ t" by (simp add: t)
  moreover have "digits U n (take n s @ t') = Some t'" for t'
    using n d by (simp add: digits_def)
  ultimately show "\<exists>p. s = p @ t \<and> (\<forall>t'. digits U n (p @ t') = Some t')" by blast
qed

lemma consuming_bind:
  assumes "consuming m1" and "consuming m2"
  shows "consuming (\<lambda>s. Option.bind (m1 s) m2)"
  unfolding consuming_def
proof (intro allI impI)
  fix s t
  assume "Option.bind (m1 s) m2 = Some t"
  then obtain u where u: "m1 s = Some u" and t: "m2 u = Some t"
    by (auto simp: bind_eq_Some_conv)
  from assms(1) u obtain p where p: "s = p @ u" "\<And>t'. m1 (p @ t') = Some t'"
    unfolding consuming_def by blast
  from assms(2) t obtain q where q: "u = q @ t" "\<And>t'. m2 (q @ t') = Some t'"
    unfolding consuming_def by blast
  have "s = (p @ q) @ t" using p(1) q(1) by simp
  moreover have "Option.bind (m1 ((p @ q) @ t')) m2 = Some t'" for t'
    using p(2)[of "q @ t'"] q(2)[of t'] by simp
  ultimately show "\<exists>p. s = p @ t \<and> (\<forall>t'. Option.bind (m1 (p @ t')) m2 = Some t')" by blast
qed

lemma consuming_date_re: "consuming (date_re U)"
proof -
  have "date_re U =
    (\<lambda>s. Option.bind (digits U 4 s) (\<lambda>s1. Option.bind (lit (py ''-'') s1)
      (\<lambda>s2. Option.bind (digits U 2 s2) (\<lambda>s3. Option.bind (lit (py ''-'') s3) (digits U 2)))))"
    by (rule ext) (simp add: date_re_def)
  then show ?thesis
    by (simp only: consuming_bind consuming_lit consuming_digits)
qed

lemma date_group_matches:
  assumes "date_group U s = Some (d, t)"
  shows "re_match_date U d"
proof -
  from assms have t: "date_re U s = Some t" and d: "d = take (length s - length t) s"
    by (auto simp: date_group_def split: option.splits)
  from consuming_date_re t obtain p where p: "s = p @ t" "\<And>t'. date_re U (p @ t') = Some t'"
    unfolding consuming_def by blast
  have "d = p" using d p(1) by simp
  then show ?thesis using p(2)[of "[]"] by (simp add: re_match_date_def)
qed

lemma ws_star_result:
  assumes k: "\<And>s r. k s = Some r \<Longrightarrow> P r"
  shows "ws_star U k s = Some r \<Longrightarrow> P r"
proof (induction s)
  case Nil
  then have "k [] = Some r" by simp
  then show ?case by (rule k)
next
  case (Cons c cs)
  show ?case
  proof (cases "is_space U c \<and> ws_star U k cs = Some r")
    case True
    then show ?thesis using Cons.IH by simp
  next
    case False
    then have "k (c # cs) = Some r"
      using Cons.prems by (auto split: if_splits option.splits)
    then show ?thesis by (rule k)
  qed
qed

lemma ws_plus_result:
  assumes k: "\<And>s r. k s = Some r \<Longrightarrow> P r"
    and m: "ws_plus U k s = Some r"
  shows "P r"
proof (cases s)
  case Nil
  then show ?thesis using m by simp
next
  case (Cons c cs)
  then have "ws_star U k cs = Some r" using m by (simp split: if_splits)
  then show ?thesis
    using ws_star_result[where k = k and P = P and U = U and s = cs and r = r] k by blast
qed

lemma date_suffix_matches:
  assumes "date_suffix U s = Some (d, t)"
  shows "re_match_date U d"
proof -
  have inner: "re_match_date U (fst r)"
    if "Option.bind (lit (py ''-'') s1) (ws_plus U (date_group U)) = Some r" for s1 r
  proof -
    from that obtain s2 where "ws_plus U (date_group U) s2 = Some r"
      by (auto simp: bind_eq_Some_conv)
    then show ?thesis
      using ws_plus_result[where k = "date_group U" and P = "\<lambda>r. re_match_date U (fst r)"
          and U = U and s = s2 and r = r] date_group_matches
      by fastforce
  qed
  show ?thesis
    using ws_plus_result[where P = "\<lambda>r. re_match_date U (fst r)" and U = U and s = s and r = "(d, t)",
        OF inner assms[unfolded date_suffix_def]]
    by simp
qed

lemma match_version_date:
  assumes "match_version U s = Some (l, d, t)"
  shows "d = [] \<or> re_match_date U d"
  using assms
  by (auto simp: match_version_def Let_def split: option.splits if_splits dest: date_suffix_matches)

lemma findall_versions_dates:
  "(v, d) \<in> set (findall_versions U bol s) \<Longrightarrow> d = [] \<or> re_match_date U d"
proof (induction U bol s rule: findall_versions.induct)
  case (1 U bol s)
  show ?case
  proof (cases "if bol then match_version U s else None")
    case None
    then have eq: "findall_versions U bol s =
        (case s of [] \<Rightarrow> [] | c # cs \<Rightarrow> findall_versions U (c = NL) cs)"
      by (simp add: findall_versions.simps[of U bol s])
    show ?thesis
    proof (cases s)
      case Nil
      then show ?thesis using "1.prems" eq by simp
    next
      case (Cons c cs)
      then have "(v, d) \<in> set (findall_versions U (c = NL) cs)"
        using "1.prems" eq by simp
      then show ?thesis using "1.IH"(1)[OF None Cons] by simp
    qed
  next
    case (Some m)
    obtain l d' t where m: "m = (l, d', t)" by (cases m)
    have mv: "match_version U s = Some (l, d', t)"
      using Some m by (simp split: if_splits)
    from "1.prems" Some m
    have "(v, d) = (l, d') \<or> (v, d) \<in> set (findall_versions U (ends_line s t) t)"
      by (simp add: findall_versions.simps[of U bol s])
    then show ?thesis
      using match_version_date[OF mv] "1.IH"(2)[OF Some m[symmetric] refl]
      by auto
  qed
qed

lemma no_date_errors:
  "concat (map (\<lambda>(v, d). if d \<noteq> [] \<and> \<not> re_match_date U d then [err_date_format v d] else [])
     (findall_versions U bol s)) = []"
  by (auto simp: concat_eq_Nil_conv dest: findall_versions_dates)

lemma fst_after_step4:
  "fst (after_step4 U content) =
     fst (after_step3 content)
     @ (if findall_versions U True content = [] then [err_no_versions]
        else if \<not> list_ex (\<lambda>v. fst v = py ''Unreleased'') (findall_versions U True content)
             then [err_missing_unreleased] else [])"
  by (cases "after_step3 content") (simp add: after_step4_def check_versions_eq no_date_errors)

lemma err_date_format_neq:
  "err_date_format v d \<noteq> err_first_line"
  "err_date_format v d \<noteq> err_no_versions"
  "err_date_format v d \<noteq> err_missing_unreleased"
  by (simp_all add: err_date_format_def err_first_line_def err_no_versions_def
      err_missing_unreleased_def py_def)

lemma final_errors_subset:
  "set (fst (after_step4 U content)) \<subseteq> {err_first_line, err_no_versions, err_missing_unreleased}"
  by (auto simp: fst_after_step4 after_step3_def)

subsection \<open>The claims\<close>

text \<open>
  C1. For every text the validator returns \<open>True\<close> exactly when the list of errors is
  empty, whatever the warnings are, and the process ends with status 0 exactly when it
  returns \<open>True\<close>, with status 1 otherwise.
\<close>

theorem verdict_iff_no_errors:
  "\<exists>r. validate_changelog U g (Some content) = (g, Inr r)
     \<and> returned r = (final_errors r = [])
     \<and> exit_code U g (Some content) = (if returned r then 0 else 1)"
  by (simp add: validate_changelog_def exit_code_def validate_content_eq)

text \<open>
  C2. When the first line of the text does not start with \<open># Changelog\<close>, the header error
  is among the errors and the validator returns \<open>False\<close>, whatever the rest of the text is.
\<close>

theorem header_error_reported:
  assumes "\<not> startswith (py ''# Changelog'') (takeWhile (\<lambda>c. c \<noteq> NL) content)"
  shows "\<exists>r. validate_changelog U g (Some content) = (g, Inr r)
     \<and> err_first_line \<in> set (final_errors r) \<and> \<not> returned r"
proof -
  obtain w where "after_step3 content = ([err_first_line], w)"
    using assms by (simp add: after_step3_def)
  then obtain es ws where "after_step4 U content = (err_first_line # es, ws)"
    by (simp add: after_step4_def check_versions_eq)
  then show ?thesis
    by (simp add: validate_changelog_def validate_content_eq)
qed

theorem header_error_reported_witness:
  "\<exists>r. validate_changelog ascii_db module_init
         (Some (py ''Changes\<newline>\<newline>## [Unreleased]\<newline>### Added\<newline>- New feature\<newline>''))
       = (module_init, Inr r)
     \<and> err_first_line \<in> set (final_errors r) \<and> \<not> returned r"
  by (rule header_error_reported) code_simp

text \<open>
  C7. For every text, the empty one too, and also when the file does not exist, the
  validator returns a report: no exception leaves it. The only expression of the body
  that can raise is \<open>lines[0]\<close>, and \<open>split\<close> never returns an empty list; every
  search ends, the two \<open>findall\<close> searches by the termination proofs above and the others
  by recursion on the text. On the empty text the errors are the header error and the
  error that no version section was found.
\<close>

theorem validation_total:
  "(\<exists>r. validate_changelog U g file = (g, Inr r))
   \<and> validate_changelog U g (Some []) =
       (g, Inr \<lparr>final_errors = [err_first_line, err_no_versions],
                final_warnings = [warn_keepachangelog, warn_semver],
                returned = False\<rparr>)"
proof
  show "\<exists>r. validate_changelog U g file = (g, Inr r)"
    by (cases "file") (simp_all add: validate_changelog_def validate_content_eq)
  have "validate_content U g [] =
      (g, Inr \<lparr>final_errors = [err_first_line, err_no_versions],
               final_warnings = [warn_keepachangelog, warn_semver], returned = False\<rparr>)"
    by code_simp
  then show "validate_changelog U g (Some []) =
       (g, Inr \<lparr>final_errors = [err_first_line, err_no_versions],
                final_warnings = [warn_keepachangelog, warn_semver],
                returned = False\<rparr>)"
    by (simp add: validate_changelog_def)
qed

text \<open>
  C5. On the text of the first end-to-end scenario the validator returns \<open>True\<close> with no
  error; the warnings are the two about the missing references, in that order; one
  version section is found, so the check of the comparison link is skipped and its
  warning is not given.
\<close>

theorem scenario_unreleased_only:
  "validate_changelog U module_init
     (Some (py ''# Changelog\<newline>\<newline>## [Unreleased]\<newline>### Added\<newline>- New feature\<newline>''))
     = (module_init,
        Inr \<lparr>final_errors = [],
             final_warnings = [warn_keepachangelog, warn_semver],
             returned = True\<rparr>)
   \<and> findall_versions U True
        (py ''# Changelog\<newline>\<newline>## [Unreleased]\<newline>### Added\<newline>- New feature\<newline>'')
     = [(py ''Unreleased'', [])]
   \<and> warn_link \<notin> set [warn_keepachangelog, warn_semver]
   \<and> \<not> search_multiline link_re True
        (py ''# Changelog\<newline>\<newline>## [Unreleased]\<newline>### Added\<newline>- New feature\<newline>'')"
  by code_simp

text \<open>
  C6. On the text of the second end-to-end scenario, which has no Unreleased section, the
  only error is that the Unreleased section is missing: the date \<open>2024-13-45\<close> is captured
  and has the shape the format check asks for, so there is no error about the date.
\<close>

theorem scenario_impossible_date:
  "validate_changelog U module_init
     (Some (py ''# Changelog\<newline>\<newline>## [1.0.0] - 2024-13-45\<newline>### Added\<newline>- X\<newline>''))
     = (module_init,
        Inr \<lparr>final_errors = [err_missing_unreleased],
             final_warnings = [warn_keepachangelog, warn_semver],
             returned = False\<rparr>)
   \<and> findall_versions U True
        (py ''# Changelog\<newline>\<newline>## [1.0.0] - 2024-13-45\<newline>### Added\<newline>- X\<newline>'')
     = [(py ''1.0.0'', py ''2024-13-45'')]
   \<and> re_match_date U (py ''2024-13-45'')"
  by code_simp

text \<open>
  C3. The version line \<open>## [1.0.0] - 2024/01/01\<close> carries a date that has not the shape
  \<open>YYYY-MM-DD\<close>. The version pattern captures no date there, so the loop takes the
  version as undated: the validator gives the warning that the date is missing, reports no
  error and returns \<open>True\<close>. The error about the date format, which lines 71 to 73 are
  there to give, does not appear.
\<close>

theorem malformed_date_not_reported:
  "validate_changelog U module_init
     (Some (py ''# Changelog\<newline>\<newline>## [Unreleased]\<newline>### Added\<newline>- New feature\<newline>\<newline>## [1.0.0] - 2024/01/01\<newline>### Added\<newline>- First release\<newline>''))
     = (module_init,
        Inr \<lparr>final_errors = [],
             final_warnings =
               [warn_keepachangelog, warn_semver, warn_missing_date (py ''1.0.0''), warn_link],
             returned = True\<rparr>)
   \<and> findall_versions U True
        (py ''# Changelog\<newline>\<newline>## [Unreleased]\<newline>### Added\<newline>- New feature\<newline>\<newline>## [1.0.0] - 2024/01/01\<newline>### Added\<newline>- First release\<newline>'')
     = [(py ''Unreleased'', []), (py ''1.0.0'', [])]
   \<and> \<not> re_match_date U (py ''2024/01/01'')"
  by code_simp

text \<open>
  C4. For every text, a date that the version pattern captures is empty (no date was
  captured) or has the shape that the format check asks for. So the errors of a run are
  among the header error, the error that no version section was found and the error that
  the Unreleased section is missing: the error about the date format is never among them,
  whatever version and date it would name.
\<close>

theorem date_format_error_unreachable:
  "(\<forall>v d. (v, d) \<in> set (findall_versions U True content) \<longrightarrow> d = [] \<or> re_match_date U d)
   \<and> (\<exists>r. validate_changelog U g (Some content) = (g, Inr r)
        \<and> set (final_errors r) \<subseteq> {err_first_line, err_no_versions, err_missing_unreleased}
        \<and> (\<forall>v d. err_date_format v d \<notin> set (final_errors r)))"
proof (intro conjI allI impI)
  fix v d
  assume "(v, d) \<in> set (findall_versions U True content)"
  then show "d = [] \<or> re_match_date U d" by (rule findall_versions_dates)
next
  let ?r = "\<lparr>final_errors = fst (after_step4 U content),
          final_warnings =
            snd (check_unreleased U g content (snd (after_step4 U content)))
            @ (if search_multiline star_plus_re True content then [warn_list_marker] else [])
            @ (if 1 < length (findall_versions U True content) \<and> \<not> search_multiline link_re True content
               then [warn_link] else []),
          returned = (fst (after_step4 U content) = [])\<rparr>"
  have "validate_changelog U g (Some content) = (g, Inr ?r)"
    by (simp add: validate_changelog_def validate_content_eq)
  moreover have "set (final_errors ?r) \<subseteq> {err_first_line, err_no_versions, err_missing_unreleased}"
    using final_errors_subset by simp
  moreover have "\<forall>v d. err_date_format v d \<notin> set (final_errors ?r)"
    using final_errors_subset[of U content] err_date_format_neq by auto
  ultimately show "\<exists>r. validate_changelog U g (Some content) = (g, Inr r)
        \<and> set (final_errors r) \<subseteq> {err_first_line, err_no_versions, err_missing_unreleased}
        \<and> (\<forall>v d. err_date_format v d \<notin> set (final_errors r))"
    by blast
qed

theorem date_format_error_unreachable_witness:
  "(py ''1.0.0'', py ''2024-13-45'') \<in> set (findall_versions ascii_db True
       (py ''# Changelog\<newline>\<newline>## [1.0.0] - 2024-13-45\<newline>## [0.9.0] - 2024/01/01\<newline>''))
   \<and> re_match_date ascii_db (py ''2024-13-45'')
   \<and> (\<exists>r. validate_changelog ascii_db module_init
         (Some (py ''# Changelog\<newline>\<newline>## [1.0.0] - 2024-13-45\<newline>## [0.9.0] - 2024/01/01\<newline>''))
         = (module_init, Inr r)
        \<and> err_date_format (py ''0.9.0'') (py ''2024/01/01'') \<notin> set (final_errors r))"
proof -
  have m: "(py ''1.0.0'', py ''2024-13-45'') \<in> set (findall_versions ascii_db True
       (py ''# Changelog\<newline>\<newline>## [1.0.0] - 2024-13-45\<newline>## [0.9.0] - 2024/01/01\<newline>''))"
    by code_simp
  show ?thesis
    using m date_format_error_unreachable[of ascii_db
        "py ''# Changelog\<newline>\<newline>## [1.0.0] - 2024-13-45\<newline>## [0.9.0] - 2024/01/01\<newline>''"
        module_init]
    by (auto simp: py_def)
qed

text \<open>
  C8. Two runs on the same file, the second started in the state of the module that the
  first has left, give the same report: the same errors and the same warnings, in the
  same order, and the same verdict. The first run leaves the module as it found it, and
  so does the second. This rests on the body: the two lists start empty in every run,
  and step 5, which alone touches \<open>VALID_CATEGORIES\<close>, only reads it.
\<close>

theorem validation_deterministic:
  assumes "validate_changelog U g file = (g1, r1)"
    and "validate_changelog U g1 file = (g2, r2)"
  shows "r2 = r1 \<and> g1 = g \<and> g2 = g"
proof (cases "file")
  case None
  then show ?thesis using assms by (simp add: validate_changelog_def)
next
  case (Some content)
  have "g1 = g"
    using assms(1) Some by (simp add: validate_changelog_def validate_content_eq)
  then show ?thesis
    using assms by simp
qed

theorem validation_deterministic_witness:
  "\<exists>g1 r1 g2 r2.
     validate_changelog ascii_db module_init
       (Some (py ''# Changelog\<newline>\<newline>## [Unreleased]\<newline>### Bogus\<newline>- x\<newline>'')) = (g1, r1)
     \<and> validate_changelog ascii_db g1
       (Some (py ''# Changelog\<newline>\<newline>## [Unreleased]\<newline>### Bogus\<newline>- x\<newline>'')) = (g2, r2)
     \<and> r1 = Inr \<lparr>final_errors = [],
                  final_warnings = [warn_keepachangelog, warn_semver,
                    warn_invalid_categories [py ''Bogus''],
                    warn_valid_categories (VALID_CATEGORIES module_init)],
                  returned = True\<rparr>
     \<and> r2 = r1 \<and> g1 = module_init \<and> g2 = module_init"
proof -
  let ?c = "py ''# Changelog\<newline>\<newline>## [Unreleased]\<newline>### Bogus\<newline>- x\<newline>''"
  let ?r = "Inr \<lparr>final_errors = [],
                  final_warnings = [warn_keepachangelog, warn_semver,
                    warn_invalid_categories [py ''Bogus''],
                    warn_valid_categories (VALID_CATEGORIES module_init)],
                  returned = True\<rparr> :: py_error + report"
  have a: "validate_changelog ascii_db module_init (Some ?c) = (module_init, ?r)"
    by code_simp
  obtain g2 r2 where b: "validate_changelog ascii_db module_init (Some ?c) = (g2, r2)"
    by (cases "validate_changelog ascii_db module_init (Some ?c)")
  from validation_deterministic[OF a b] a b show ?thesis by blast
qed

text \<open>
  C9. The text below has two Unreleased headers, and before them a line of prose that
  mentions \<open>## [Unreleased]\<close>. The version pattern finds the two headers, so the error that
  the section is missing is not given. The text between the first header and the second
  passes every check of step 5. But the search of step 5 is not tied to the start of a
  line: it matches the mention in the prose, reads the text after it and gives three
  warnings, among them one about a category \<open>Bogus\<close> that is no part of an Unreleased
  section. In the second text each of the two Unreleased headers follows a line
  \<open>## [a\<close> that is not closed; the label of the version pattern runs over the end of
  that line and swallows the header, so no section is labelled \<open>Unreleased\<close> and the
  error that the section is missing is given.
\<close>

theorem unreleased_search_reads_prose:
  "findall_versions U True
     (py ''# Changelog\<newline>\<newline>Notes on ## [Unreleased] follow.\<newline>### Bogus\<newline>\<newline>## [Unreleased]\<newline>### Added\<newline>- x\<newline>\<newline>## [Unreleased]\<newline>### Fixed\<newline>- y\<newline>'')
     = [(py ''Unreleased'', []), (py ''Unreleased'', [])]
   \<and> py ''# Changelog\<newline>\<newline>Notes on ## [Unreleased] follow.\<newline>### Bogus\<newline>\<newline>## [Unreleased]\<newline>### Added\<newline>- x\<newline>\<newline>## [Unreleased]\<newline>### Fixed\<newline>- y\<newline>''
     = py ''# Changelog\<newline>\<newline>Notes on ## [Unreleased] follow.\<newline>### Bogus\<newline>\<newline>''
       @ py ''## [Unreleased]'' @ py ''\<newline>### Added\<newline>- x\<newline>\<newline>''
       @ py ''## [Unreleased]\<newline>### Fixed\<newline>- y\<newline>''
   \<and> unreleased_rules U module_init (py ''\<newline>### Added\<newline>- x\<newline>\<newline>'') [] = (module_init, [])
   \<and> search_unreleased
       (py ''# Changelog\<newline>\<newline>Notes on ## [Unreleased] follow.\<newline>### Bogus\<newline>\<newline>## [Unreleased]\<newline>### Added\<newline>- x\<newline>\<newline>## [Unreleased]\<newline>### Fixed\<newline>- y\<newline>'')
     = Some (py '' follow.\<newline>### Bogus\<newline>\<newline>'')
   \<and> validate_changelog U module_init
       (Some (py ''# Changelog\<newline>\<newline>Notes on ## [Unreleased] follow.\<newline>### Bogus\<newline>\<newline>## [Unreleased]\<newline>### Added\<newline>- x\<newline>\<newline>## [Unreleased]\<newline>### Fixed\<newline>- y\<newline>''))
     = (module_init,
        Inr \<lparr>final_errors = [],
             final_warnings =
               [warn_keepachangelog, warn_semver,
                warn_invalid_categories [py ''Bogus''],
                warn_valid_categories (VALID_CATEGORIES module_init),
                warn_empty, warn_link],
             returned = True\<rparr>)
   \<and> findall_versions U True
       (py ''# Changelog\<newline>## [a\<newline>## [Unreleased]\<newline>### Added\<newline>- x\<newline>## [a\<newline>## [Unreleased]\<newline>### Fixed\<newline>- y\<newline>'')
     = [(py ''a\<newline>## [Unreleased'', []), (py ''a\<newline>## [Unreleased'', [])]
   \<and> validate_changelog U module_init
       (Some (py ''# Changelog\<newline>## [a\<newline>## [Unreleased]\<newline>### Added\<newline>- x\<newline>## [a\<newline>## [Unreleased]\<newline>### Fixed\<newline>- y\<newline>''))
     = (module_init,
        Inr \<lparr>final_errors = [err_missing_unreleased],
             final_warnings =
               [warn_keepachangelog, warn_semver,
                warn_missing_date (py ''a\<newline>## [Unreleased''),
                warn_missing_date (py ''a\<newline>## [Unreleased''),
                warn_link],
             returned = False\<rparr>)"
  by code_simp

text \<open>
  C10. In the text below the Unreleased section, the text between the header line
  \<open>## [Unreleased]\<close> and the header line of version 1.0.0, is two newlines: it has no
  category header and no bullet. The search of step 5 matches the mention of
  \<open>## [Unreleased]\<close> in the line of prose before it and reads the text after the mention,
  where there is a category header and no bullet. So the run gives the warning that the
  section appears to be empty, and not the warning that it has no categories.
\<close>

theorem empty_warning_without_category:
  "findall_versions U True
     (py ''# Changelog\<newline>\<newline>See ## [Unreleased] below.\<newline>### Added\<newline>\<newline>## [Unreleased]\<newline>\<newline>## [1.0.0] - 2024-01-01\<newline>### Added\<newline>- x\<newline>'')
     = [(py ''Unreleased'', []), (py ''1.0.0'', py ''2024-01-01'')]
   \<and> py ''# Changelog\<newline>\<newline>See ## [Unreleased] below.\<newline>### Added\<newline>\<newline>## [Unreleased]\<newline>\<newline>## [1.0.0] - 2024-01-01\<newline>### Added\<newline>- x\<newline>''
     = py ''# Changelog\<newline>\<newline>See ## [Unreleased] below.\<newline>### Added\<newline>\<newline>''
       @ py ''## [Unreleased]'' @ py ''\<newline>\<newline>''
       @ py ''## [1.0.0] - 2024-01-01\<newline>### Added\<newline>- x\<newline>''
   \<and> findall_categories U True (py ''\<newline>\<newline>'') = []
   \<and> \<not> search_multiline (bullet_re U) True (py ''\<newline>\<newline>'')
   \<and> unreleased_rules U module_init (py ''\<newline>\<newline>'') [] = (module_init, [warn_no_categories])
   \<and> search_unreleased
       (py ''# Changelog\<newline>\<newline>See ## [Unreleased] below.\<newline>### Added\<newline>\<newline>## [Unreleased]\<newline>\<newline>## [1.0.0] - 2024-01-01\<newline>### Added\<newline>- x\<newline>'')
     = Some (py '' below.\<newline>### Added\<newline>\<newline>'')
   \<and> validate_changelog U module_init
       (Some (py ''# Changelog\<newline>\<newline>See ## [Unreleased] below.\<newline>### Added\<newline>\<newline>## [Unreleased]\<newline>\<newline>## [1.0.0] - 2024-01-01\<newline>### Added\<newline>- x\<newline>''))
     = (module_init,
        Inr \<lparr>final_errors = [],
             final_warnings = [warn_keepachangelog, warn_semver, warn_empty, warn_link],
             returned = True\<rparr>)
   \<and> warn_no_categories \<notin> set [warn_keepachangelog, warn_semver, warn_empty, warn_link]"
  by code_simp

end
